theory Spec2Isabelle
  imports Complex_Main "HOL-Library.Char_ord" "HOL-Library.List_Lexorder"
begin

section \<open>Numbers and their display\<close>

text \<open>
  The program is TypeScript; its \<^verbatim>\<open>number\<close> values that arrive as JSON are modelled
  by rationals, and the sums and quotients of the analytics page are taken exactly. A
  double can lie a little below the exact quotient, so at a decimal tie the last digit
  displayed may differ from the one computed here (23 of 80 orders filled show as
  \<open>28.7\<close> in the program and as \<open>28.8\<close> here); which branch is taken, and the range
  of a value, do not depend on it. Text typed into the trade form is rounded to a double
  where it is parsed, see \<open>numberValue\<close> below. A field that the JSON payload may
  leave out (\<^verbatim>\<open>undefined\<close> or \<^verbatim>\<open>null\<close> at run time) is an \<open>option\<close>.
\<close>

text \<open>\<^verbatim>\<open>v || 0\<close> on an optional number: an absent value and zero both give zero.\<close>

definition orZero :: "rat option \<Rightarrow> rat" where
  "orZero v = (case v of None \<Rightarrow> 0 | Some x \<Rightarrow> x)"

text \<open>The character of a decimal digit: the digits are the codes 48 to 57.\<close>

definition digitChar :: "int \<Rightarrow> char" where
  "digitChar d = char_of (48 + d)"

text \<open>The decimal digits of an integer that is not negative, without leading zeros.\<close>

function digitsOf :: "int \<Rightarrow> string" where
  "digitsOf n = (if n < 10 then [digitChar n] else digitsOf (n div 10) @ [digitChar (n mod 10)])"
  by pat_completeness auto
termination
  by (relation "measure nat") auto

declare digitsOf.simps [simp del]

text \<open>
  \<^verbatim>\<open>Number.prototype.toFixed(f)\<close> as ECMAScript defines it for a finite number below
  \<open>10^21\<close> in magnitude: the sign is split off, \<open>n\<close> is the integer with \<open>n / 10^f\<close>
  nearest to the magnitude (the larger one on a tie), and its decimal digits are padded
  with zeros to \<open>f + 1\<close> places before the point is put in. (From \<open>10^21\<close> on JavaScript
  prints an exponent instead; the quantities displayed here stay far below.)
\<close>

definition toFixedScaled :: "rat \<Rightarrow> nat \<Rightarrow> int" where
  "toFixedScaled x f = \<lfloor>\<bar>x\<bar> * 10 ^ f + 1 / 2\<rfloor>"

definition toFixed :: "rat \<Rightarrow> nat \<Rightarrow> string" where
  "toFixed x f =
     (let m = digitsOf (toFixedScaled x f);
          m' = (if f = 0 then m
                else let padded = replicate (f + 1 - length m) (CHR ''0'') @ m;
                         k = length padded
                     in take (k - f) padded @ ''.'' @ drop (k - f) padded)
      in (if x < 0 then ''-'' else '''') @ m')"

section \<open>Order records\<close>

text \<open>
  \<^verbatim>\<open>interface AnalyticsTrade\<close> of the trading store. The field \<^verbatim>\<open>type\<close> is named
  \<open>order_type\<close> here.
\<close>

record AnalyticsTrade =
  order_id :: int
  symbol :: string
  side :: string
  order_type :: string
  quantity :: rat
  limit_price :: "rat option"
  status :: string
  arrival_mid :: "rat option"
  created_at :: string
  updated_at :: string
  exec_id :: "int option"
  exec_price :: "rat option"
  exec_qty :: "rat option"
  slippage_bps :: "rat option"
  exec_created_at :: "string option"

section \<open>Analytics page: derived statistics\<close>

text \<open>
  \<^verbatim>\<open>selectedSymbol ? trades.filter((t) => t.symbol === selectedSymbol) : trades\<close>.
  The test is JavaScript truthiness: \<^verbatim>\<open>null\<close> and the empty string both select
  the unfiltered history.
\<close>

definition filteredTrades :: "string option \<Rightarrow> AnalyticsTrade list \<Rightarrow> AnalyticsTrade list" where
  "filteredTrades selectedSymbol trades =
     (case selectedSymbol of
        None \<Rightarrow> trades
      | Some s \<Rightarrow> if s = [] then trades else filter (\<lambda>t. symbol t = s) trades)"

definition filledTrades :: "AnalyticsTrade list \<Rightarrow> AnalyticsTrade list" where
  "filledTrades ft = filter (\<lambda>t. status t = ''FILLED'') ft"

text \<open>The percentage under \<^verbatim>\<open>fillRate\<close>, before it is formatted.\<close>

definition fillRatePercent :: "AnalyticsTrade list \<Rightarrow> rat" where
  "fillRatePercent ft = of_nat (length (filledTrades ft)) / of_nat (length ft) * 100"

text \<open>The mean under \<^verbatim>\<open>avgSlippage\<close>, before it is formatted; \<^verbatim>\<open>reduce\<close> is a left fold.\<close>

definition slippageSum :: "AnalyticsTrade list \<Rightarrow> rat" where
  "slippageSum fl = foldl (\<lambda>sum t. sum + orZero (slippage_bps t)) 0 fl"

definition execQtySum :: "AnalyticsTrade list \<Rightarrow> rat" where
  "execQtySum fl = foldl (\<lambda>sum t. sum + orZero (exec_qty t)) 0 fl"

record Stats =
  totalTrades :: nat
  fillRate :: string
  totalQuantity :: string
  avgSlippage :: string
  buyTrades :: nat
  sellTrades :: nat

definition stats_local :: "string option \<Rightarrow> AnalyticsTrade list \<Rightarrow> Stats" where
  "stats_local selectedSymbol trades =
     (let ft = filteredTrades selectedSymbol trades;
          fl = filledTrades ft
      in \<lparr> totalTrades = length ft,
           fillRate = (if length ft > 0 then toFixed (fillRatePercent ft) 1 else ''0''),
           totalQuantity = toFixed (execQtySum fl) 4,
           avgSlippage =
             (if length fl > 0 then toFixed (slippageSum fl / of_nat (length fl)) 2 else ''0''),
           buyTrades = length (filter (\<lambda>t. side t = ''BUY'') ft),
           sellTrades = length (filter (\<lambda>t. side t = ''SELL'') ft) \<rparr>)"

subsection \<open>Slippage trend series\<close>

text \<open>\<^verbatim>\<open>xs.slice(-n)\<close>: the last \<open>n\<close> elements, or all of them when there are fewer.\<close>

definition sliceLast :: "nat \<Rightarrow> 'a list \<Rightarrow> 'a list" where
  "sliceLast n xs = drop (length xs - n) xs"

text \<open>\<^verbatim>\<open>t.exec_created_at || t.created_at\<close>, the time stamp a chart label is made from.\<close>

definition chartTime :: "AnalyticsTrade \<Rightarrow> string" where
  "chartTime t =
     (case exec_created_at t of
        None \<Rightarrow> created_at t
      | Some s \<Rightarrow> if s = [] then created_at t else s)"

text \<open>
  \<^verbatim>\<open>filledTrades.slice(-20).reverse()\<close>, the records behind both the labels and the
  data of the chart.
\<close>

definition slippageWindow :: "string option \<Rightarrow> AnalyticsTrade list \<Rightarrow> AnalyticsTrade list" where
  "slippageWindow selectedSymbol trades =
     rev (sliceLast 20 (filledTrades (filteredTrades selectedSymbol trades)))"

record ChartData =
  labels :: "string list"
  chart_data :: "rat list"

text \<open>
  The labels are kept as the time stamps handed to \<^verbatim>\<open>new Date(...)\<close>; the locale
  formatting of the date is not modelled.
\<close>

definition slippageChartData :: "string option \<Rightarrow> AnalyticsTrade list \<Rightarrow> ChartData" where
  "slippageChartData selectedSymbol trades =
     \<lparr> labels = map chartTime (slippageWindow selectedSymbol trades),
       chart_data = map (\<lambda>t. orZero (slippage_bps t)) (slippageWindow selectedSymbol trades) \<rparr>"

section \<open>Venue client results\<close>

text \<open>
  The error object caught from a failed \<^verbatim>\<open>apiClient\<close> call, reduced to the three paths
  the store reads: \<^verbatim>\<open>err.response?.data\<close> (as text), \<^verbatim>\<open>err.response?.data?.message\<close>
  and \<^verbatim>\<open>err.message\<close>. An awaited call either resolves with \<^verbatim>\<open>response.data\<close> or
  rejects with such an error.
\<close>

record VenueError =
  response_data :: "string option"
  response_data_message :: "string option"
  message :: "string option"

datatype 'a response = Resolved 'a | Rejected VenueError

text \<open>\<^verbatim>\<open>v || d\<close> on an optional string: absent and empty both fall through to \<open>d\<close>.\<close>

definition orString :: "string option \<Rightarrow> string \<Rightarrow> string" where
  "orString v d = (case v of None \<Rightarrow> d | Some s \<Rightarrow> if s = [] then d else s)"

text \<open>How an \<^verbatim>\<open>async\<close> store action ends for its caller.\<close>

datatype outcome = Returned | Thrown VenueError

section \<open>Numbers that need not be finite, and parsing\<close>

text \<open>
  A number that need not be finite: the result of \<^verbatim>\<open>parseFloat\<close> and of
  \<^verbatim>\<open>Math.max\<close>.
\<close>

datatype number = NaN | PosInfinity | NegInfinity | Num rat

text \<open>\<^verbatim>\<open>x <= 0\<close> and \<^verbatim>\<open>x > 0\<close>; every comparison with \<^verbatim>\<open>NaN\<close> is false.\<close>

fun numLeZero :: "number \<Rightarrow> bool" where
  "numLeZero NaN = False"
| "numLeZero PosInfinity = False"
| "numLeZero NegInfinity = True"
| "numLeZero (Num r) = (r \<le> 0)"

fun numGtZero :: "number \<Rightarrow> bool" where
  "numGtZero NaN = False"
| "numGtZero PosInfinity = True"
| "numGtZero NegInfinity = False"
| "numGtZero (Num r) = (r > 0)"

definition isStrWhiteSpace :: "char \<Rightarrow> bool" where
  "isStrWhiteSpace c =
     (c = CHR '' '' \<or> c = CHR 0x09 \<or> c = CHR 0x0A \<or> c = CHR 0x0B \<or> c = CHR 0x0C \<or> c = CHR 0x0D)"

definition digitValue :: "char \<Rightarrow> int option" where
  "digitValue c =
     (let code = (of_char c :: int)
      in if 48 \<le> code \<and> code \<le> 57 then Some (code - 48) else None)"

definition isDigit :: "char \<Rightarrow> bool" where
  "isDigit c = (case digitValue c of None \<Rightarrow> False | Some d \<Rightarrow> True)"

fun decimalValue :: "int \<Rightarrow> string \<Rightarrow> int" where
  "decimalValue acc [] = acc"
| "decimalValue acc (c # cs) =
     decimalValue (acc * 10 + (case digitValue c of None \<Rightarrow> 0 | Some d \<Rightarrow> d)) cs"

text \<open>The power \<open>b^n\<close> for an integer exponent that is not negative, by squaring.\<close>

function ipow :: "rat \<Rightarrow> int \<Rightarrow> rat" where
  "ipow b n =
     (if n \<le> 0 then 1
      else if even n then ipow (b * b) (n div 2) else b * ipow (b * b) (n div 2))"
  by pat_completeness auto
termination
  by (relation "measure (\<lambda>(b, n). nat n)") auto

declare ipow.simps [simp del]

text \<open>
  The Number value of a real quantity: the nearest IEEE double, ties to the even
  significand. For a magnitude \<open>a\<close> the binade is searched from \<open>2^0\<close>, upwards to the
  largest exponent 1023 or downwards to the smallest normal exponent -1022; the pair
  returned is the exponent \<open>e\<close> with the power \<open>2^e\<close>. Below \<open>2^-1022\<close> the doubles are
  the multiples of \<open>2^-1074\<close>, so a small enough magnitude becomes zero; a magnitude
  that rounds to \<open>2^1024\<close> or more becomes infinite. The sign of a zero is not kept.
\<close>

function binadeUp :: "rat \<Rightarrow> int \<Rightarrow> rat \<Rightarrow> int \<times> rat" where
  "binadeUp a e p = (if e < 1023 \<and> 2 * p \<le> a then binadeUp a (e + 1) (2 * p) else (e, p))"
  by pat_completeness auto
termination
  by (relation "measure (\<lambda>(a, e, p). nat (1023 - e))") auto

function binadeDown :: "rat \<Rightarrow> int \<Rightarrow> rat \<Rightarrow> int \<times> rat" where
  "binadeDown a e p = (if - 1022 < e \<and> a < p then binadeDown a (e - 1) (p / 2) else (e, p))"
  by pat_completeness auto
termination
  by (relation "measure (\<lambda>(a, e, p). nat (e + 1022))") auto

declare binadeUp.simps [simp del]

declare binadeDown.simps [simp del]

definition binade :: "rat \<Rightarrow> int \<times> rat" where
  "binade a = (if 1 \<le> a then binadeUp a 0 1 else binadeDown a 0 1)"

definition roundHalfEven :: "rat \<Rightarrow> int" where
  "roundHalfEven y =
     (let f = \<lfloor>y\<rfloor>; r = y - of_int f
      in if r < 1 / 2 then f else if 1 / 2 < r then f + 1 else if even f then f else f + 1)"

definition numberValue :: "rat \<Rightarrow> number" where
  "numberValue x =
     (if x = 0 then Num 0
      else
        (let a = \<bar>x\<bar>;
             q = snd (binade a) / ipow 2 52;
             v = of_int (roundHalfEven (a / q)) * q
         in if ipow 2 1024 \<le> v then (if x < 0 then NegInfinity else PosInfinity)
            else Num (if x < 0 then - v else v)))"

text \<open>
  The optional exponent of a decimal literal: \<^verbatim>\<open>e\<close> or \<^verbatim>\<open>E\<close>, an optional sign and
  at least one digit. Without a digit the literal ends before the \<^verbatim>\<open>e\<close>.
\<close>

definition exponentPart :: "string \<Rightarrow> int" where
  "exponentPart r =
     (case r of
        [] \<Rightarrow> 0
      | c # r' \<Rightarrow>
          if c = CHR ''e'' \<or> c = CHR ''E'' then
            (let eneg = (take 1 r' = ''-'');
                 r'' = (if take 1 r' = ''-'' \<or> take 1 r' = ''+'' then drop 1 r' else r');
                 ed = takeWhile isDigit r''
             in if ed = [] then 0
                else if eneg then - decimalValue 0 ed else decimalValue 0 ed)
          else 0)"

text \<open>
  \<^verbatim>\<open>parseFloat\<close>: leading white space is skipped, then the longest prefix that is a
  signed decimal literal (or \<^verbatim>\<open>Infinity\<close>) is read; a string with no such prefix is
  \<^verbatim>\<open>NaN\<close>. The result is the Number value of the literal: a literal too small for
  a double is zero, one too large is infinite.
\<close>

definition parseFloat :: "string \<Rightarrow> number" where
  "parseFloat input =
     (let s = dropWhile isStrWhiteSpace input;
          neg = (take 1 s = ''-'');
          s1 = (if take 1 s = ''-'' \<or> take 1 s = ''+'' then drop 1 s else s)
      in if take 8 s1 = ''Infinity'' then (if neg then NegInfinity else PosInfinity)
         else
           (let ip = takeWhile isDigit s1;
                r1 = dropWhile isDigit s1;
                hasDot = (take 1 r1 = ''.'');
                fp = (if hasDot then takeWhile isDigit (drop 1 r1) else []);
                r2 = (if hasDot then dropWhile isDigit (drop 1 r1) else r1)
            in if ip = [] \<and> fp = [] then NaN
               else
                 (let mant = of_int (decimalValue 0 (ip @ fp)) / ipow 10 (int (length fp));
                      ex = exponentPart r2;
                      scale = (if ex < 0 then 1 / ipow 10 (- ex) else ipow 10 ex)
                  in numberValue ((if neg then - 1 else 1) * mant * scale))))"

section \<open>The trading store\<close>

text \<open>
  The interfaces of the store. Where two interfaces share a field name the fields carry a
  prefix here. \<^verbatim>\<open>OrderLevel\<close> and \<^verbatim>\<open>OrderBook\<close> keep as optional what the order-book
  component guards at run time (\<^verbatim>\<open>b.size || 0\<close>, \<^verbatim>\<open>!orderBook.bids\<close>,
  \<^verbatim>\<open>orderBook?.mid ?? 0\<close>).
\<close>

record OrderLevel =
  level_side :: string
  level_price :: "rat option"
  level_size :: "rat option"

record OrderBook =
  book_symbol :: string
  mid :: "rat option"
  bids :: "OrderLevel list option"
  asks :: "OrderLevel list option"

record TradeRequest =
  req_symbol :: string
  req_side :: string
  req_type :: string
  req_quantity :: number
  req_limit_price :: "number option"

text \<open>
  \<^verbatim>\<open>interface OrderResponse\<close>. The interface declares every field a number or a string;
  the value is whatever JSON the venue answered, so the fields that only an execution
  fills are optional here.
\<close>

record OrderResponse =
  o_order_id :: int
  o_symbol :: string
  o_side :: string
  o_type :: string
  o_quantity :: rat
  o_limit_price :: "rat option"
  o_arrival_mid :: "rat option"
  o_exec_price :: "rat option"
  o_slippage :: "rat option"
  o_status :: string

record SymbolStats =
  ss_symbol :: string
  ss_trades :: int
  total_qty :: rat
  buy_qty :: rat
  sell_qty :: rat
  net_qty :: rat
  avg_exec_price :: rat
  avg_slippage_usd :: rat
  avg_slippage_bps :: rat

record DashboardStats =
  open_orders :: int
  portfolio_value :: rat

record TradingStore =
  orderBook :: "OrderBook option"
  selectedSymbol :: "string option"
  selectedSide :: "string option"
  isLoading :: bool
  error :: "string option"
  trades :: "AnalyticsTrade list"
  stats :: "SymbolStats option"
  lastOrder :: "OrderResponse option"
  dashboardStats :: "DashboardStats option"

definition initialStore :: TradingStore where
  "initialStore =
     \<lparr> orderBook = None, selectedSymbol = None, selectedSide = None, isLoading = False,
       error = None, trades = [], stats = None, lastOrder = None, dashboardStats = None \<rparr>"

text \<open>
  What a store action does besides updating the store is kept in a log beside it: the
  requests handed to \<^verbatim>\<open>apiClient\<close>, the lines written with \<^verbatim>\<open>console.error\<close> and
  the \<^verbatim>\<open>alert\<close> boxes raised.
\<close>

datatype request =
    GetOrderBook string
  | PostTrade TradeRequest
  | GetOrders
  | GetStats

record World =
  store :: TradingStore
  requests :: "request list"
  console :: "string list"
  alerts :: "string list"

definition initialWorld :: World where
  "initialWorld = \<lparr> store = initialStore, requests = [], console = [], alerts = [] \<rparr>"

text \<open>
  Each action takes the venue's answer to the one request it makes. The request is logged
  after the first \<^verbatim>\<open>set\<close>, as in the source.
\<close>

definition fetchOrderBook :: "string \<Rightarrow> OrderBook response \<Rightarrow> World \<Rightarrow> outcome \<times> World" where
  "fetchOrderBook symb resp w =
     (let s1 = (store w)\<lparr> isLoading := True, error := None \<rparr>;
          rq = requests w @ [GetOrderBook symb]
      in case resp of
           Resolved d \<Rightarrow>
             (Returned, w\<lparr> store := s1\<lparr> orderBook := Some d, isLoading := False \<rparr>,
                            requests := rq \<rparr>)
         | Rejected err \<Rightarrow>
             (Returned,
              w\<lparr> store := s1\<lparr> error := Some (orString (response_data_message err)
                                                ''Failed to fetch order book''),
                                isLoading := False \<rparr>,
                 requests := rq \<rparr>))"

definition submitTrade :: "TradeRequest \<Rightarrow> OrderResponse response \<Rightarrow> World \<Rightarrow> outcome \<times> World" where
  "submitTrade trade resp w =
     (let s1 = (store w)\<lparr> isLoading := True, error := None \<rparr>;
          rq = requests w @ [PostTrade trade]
      in case resp of
           Resolved d \<Rightarrow>
             (Returned, w\<lparr> store := s1\<lparr> lastOrder := Some d, isLoading := False \<rparr>,
                            requests := rq \<rparr>)
         | Rejected err \<Rightarrow>
             (Thrown err,
              w\<lparr> store := s1\<lparr> error := Some (orString (response_data err)
                                                (orString (message err) ''Trade submission failed'')),
                                isLoading := False \<rparr>,
                 requests := rq \<rparr>))"

text \<open>
  \<^verbatim>\<open>trades: response.data || []\<close>: the payload of \<^verbatim>\<open>/me/orders\<close> is an array or
  \<^verbatim>\<open>null\<close>; an array, even an empty one, is kept as it is.
\<close>

definition fetchAllTrades :: "AnalyticsTrade list option response \<Rightarrow> World \<Rightarrow> outcome \<times> World" where
  "fetchAllTrades resp w =
     (let s1 = (store w)\<lparr> isLoading := True, error := None \<rparr>;
          rq = requests w @ [GetOrders]
      in case resp of
           Resolved d \<Rightarrow>
             (Returned,
              w\<lparr> store := s1\<lparr> trades := (case d of None \<Rightarrow> [] | Some ts \<Rightarrow> ts),
                                isLoading := False \<rparr>,
                 requests := rq \<rparr>)
         | Rejected err \<Rightarrow>
             (Returned,
              w\<lparr> store := s1\<lparr> error := Some (orString (response_data err)
                                                (orString (message err) ''Failed to fetch trades'')),
                                isLoading := False \<rparr>,
                 requests := rq \<rparr>))"

definition fetchDashboardStats :: "DashboardStats option response \<Rightarrow> World \<Rightarrow> outcome \<times> World" where
  "fetchDashboardStats resp w =
     (let rq = requests w @ [GetStats]
      in case resp of
           Resolved d \<Rightarrow>
             (Returned, w\<lparr> store := (store w)\<lparr> dashboardStats := d \<rparr>, requests := rq \<rparr>)
         | Rejected err \<Rightarrow>
             (Returned,
              w\<lparr> requests := rq,
                 console := console w @ [''Failed to fetch dashboard stats:''] \<rparr>))"

section \<open>Dashboard: the summary poller\<close>

text \<open>
  \<^verbatim>\<open>useEffect\<close> of the dashboard page calls \<^verbatim>\<open>fetchDashboardStats\<close> once at mount and
  then from \<^verbatim>\<open>setInterval(fetchDashboardStats, 30000)\<close>. The list holds the venue's answer
  to each of these calls in turn: the first to the call at mount, every further one to one
  tick of the timer. The timer calls the action whatever the earlier calls did, and the
  calls are taken one after the other. The length of a period is not part of the model.
\<close>

fun dashboardPolling :: "DashboardStats option response list \<Rightarrow> World \<Rightarrow> World" where
  "dashboardPolling [] w = w"
| "dashboardPolling (r # rs) w = dashboardPolling rs (snd (fetchDashboardStats r w))"

section \<open>The trade form\<close>

text \<open>The four \<^verbatim>\<open>useState\<close> slots of the form; both inputs hold text.\<close>

record TradeForm =
  form_side :: string
  form_type :: string
  form_quantity :: string
  form_limitPrice :: string

text \<open>
  \<^verbatim>\<open>handleSubmit\<close> for the property \<^verbatim>\<open>symbol\<close>. The one test before the request is
  \<^verbatim>\<open>!quantity || parseFloat(quantity) <= 0\<close>. A rejected \<^verbatim>\<open>submitTrade\<close> is caught and
  the form is left as it is; after a resolved one both inputs are cleared. (The dashboard
  passes no \<^verbatim>\<open>onSuccess\<close>.)
\<close>

definition handleSubmit ::
  "string \<Rightarrow> TradeForm \<Rightarrow> OrderResponse response \<Rightarrow> World \<Rightarrow> TradeForm \<times> World" where
  "handleSubmit symb form resp w =
     (if form_quantity form = [] \<or> numLeZero (parseFloat (form_quantity form)) then
        (form, w\<lparr> alerts := alerts w @ [''Please enter a valid quantity''] \<rparr>)
      else
        (let trade = \<lparr> req_symbol = symb,
                        req_side = form_side form,
                        req_type = form_type form,
                        req_quantity = parseFloat (form_quantity form),
                        req_limit_price =
                          (if form_type form = ''LIMIT''
                           then Some (parseFloat (form_limitPrice form)) else None) \<rparr>
         in case submitTrade trade resp w of
              (Returned, w') \<Rightarrow> (form\<lparr> form_quantity := [], form_limitPrice := [] \<rparr>, w')
            | (Thrown err, w') \<Rightarrow> (form, w')))"

text \<open>
  The form element around the handler, \<^verbatim>\<open><form onSubmit={handleSubmit}>\<close>, has no
  \<^verbatim>\<open>noValidate\<close>; the quantity input carries \<^verbatim>\<open>required\<close>, and so does the limit
  price input, which exists only while the type is LIMIT. A browser does not deliver the
  submit event while a required input is empty, and nothing else happens then. What else
  a browser checks on a number input before it delivers the event (the \<^verbatim>\<open>step\<close>) is
  left open: it is the parameter \<open>accepts\<close>.
\<close>

definition requiredMissing :: "TradeForm \<Rightarrow> bool" where
  "requiredMissing form =
     (form_quantity form = [] \<or> (form_type form = ''LIMIT'' \<and> form_limitPrice form = []))"

definition submitForm ::
  "(TradeForm \<Rightarrow> bool) \<Rightarrow> string \<Rightarrow> TradeForm \<Rightarrow> OrderResponse response \<Rightarrow> World
     \<Rightarrow> TradeForm \<times> World" where
  "submitForm accepts symb form resp w =
     (if requiredMissing form then (form, w)
      else if accepts form then handleSubmit symb form resp w
      else (form, w))"

text \<open>
  The confirmation banner, \<^verbatim>\<open>{lastOrder && (...)}\<close>: nothing without a last order;
  otherwise \<^verbatim>\<open>lastOrder.exec_price.toFixed(2)\<close> and \<^verbatim>\<open>lastOrder.slippage.toFixed(4)\<close>,
  in this order. Calling \<^verbatim>\<open>toFixed\<close> on an absent field is a \<^verbatim>\<open>TypeError\<close>. The result
  holds the two formatted numbers; the fixed words around them are left out.
\<close>

datatype js_error = TypeError

definition lastOrderBanner :: "OrderResponse option \<Rightarrow> js_error + (string \<times> string) option" where
  "lastOrderBanner lo =
     (case lo of
        None \<Rightarrow> Inr None
      | Some ord \<Rightarrow>
          (case o_exec_price ord of
             None \<Rightarrow> Inl TypeError
           | Some p \<Rightarrow>
               (case o_slippage ord of
                  None \<Rightarrow> Inl TypeError
                | Some sl \<Rightarrow> Inr (Some (toFixed p 2, toFixed sl 4)))))"

section \<open>The order-book component\<close>

text \<open>
  The component keeps its own three \<^verbatim>\<open>useState\<close> slots. Beside them stand the calls of
  the property \<^verbatim>\<open>onDataReceived\<close> and the errors written with \<^verbatim>\<open>console.error\<close>.
\<close>

record OrderBookState =
  c_orderBook :: "OrderBook option"
  c_isLoading :: bool
  c_error :: string
  c_received :: "OrderBook list"
  c_console :: "VenueError list"

definition initialOrderBookState :: OrderBookState where
  "initialOrderBookState =
     \<lparr> c_orderBook = None, c_isLoading = False, c_error = [], c_received = [], c_console = [] \<rparr>"

text \<open>
  The component's \<^verbatim>\<open>fetchOrderBook\<close> in two steps: what it sets before the request is
  awaited, and what it sets once the request has settled (\<^verbatim>\<open>finally\<close> included).
\<close>

definition beginFetch :: "OrderBookState \<Rightarrow> OrderBookState" where
  "beginFetch st = st\<lparr> c_isLoading := True, c_error := [] \<rparr>"

definition settleFetch :: "OrderBook response \<Rightarrow> OrderBookState \<Rightarrow> OrderBookState" where
  "settleFetch resp st =
     (case resp of
        Resolved d \<Rightarrow>
          st\<lparr> c_orderBook := Some d, c_received := c_received st @ [d], c_isLoading := False \<rparr>
      | Rejected err \<Rightarrow>
          st\<lparr> c_error := ''Failed to fetch order book'', c_console := c_console st @ [err],
              c_isLoading := False \<rparr>)"

definition componentFetchOrderBook :: "OrderBook response \<Rightarrow> OrderBookState \<Rightarrow> OrderBookState" where
  "componentFetchOrderBook resp st = settleFetch resp (beginFetch st)"

text \<open>\<^verbatim>\<open>Math.max(...xs)\<close>: the largest argument, and \<^verbatim>\<open>-Infinity\<close> without arguments.\<close>

fun mathMax :: "rat list \<Rightarrow> number" where
  "mathMax [] = NegInfinity"
| "mathMax (x # xs) = (case mathMax xs of Num m \<Rightarrow> Num (max x m) | _ \<Rightarrow> Num x)"

text \<open>\<^verbatim>\<open>levels.map((b) => b.size || 0).filter(s => s > 0)\<close>\<close>

definition positiveSizes :: "OrderLevel list \<Rightarrow> rat list" where
  "positiveSizes levels = filter (\<lambda>s. s > 0) (map (\<lambda>b. orZero (level_size b)) levels)"

definition maxSize :: "OrderLevel list \<Rightarrow> OrderLevel list \<Rightarrow> number" where
  "maxSize bs aks = mathMax (positiveSizes bs @ positiveSizes aks)"

text \<open>
  \<^verbatim>\<open>maxSize > 0 ? (size / maxSize) * 100 : 0\<close>. A finite size divided by
  \<^verbatim>\<open>Infinity\<close> is zero.
\<close>

definition levelWidth :: "number \<Rightarrow> rat \<Rightarrow> rat" where
  "levelWidth m sz =
     (if numGtZero m then (case m of Num d \<Rightarrow> sz / d * 100 | _ \<Rightarrow> 0) else 0)"

record LevelRow =
  row_price :: string
  row_width :: rat
  row_size :: string

text \<open>One row of a side: \<^verbatim>\<open>level?.price ?? 0\<close> and \<^verbatim>\<open>level?.size ?? 0\<close>.\<close>

definition levelRow :: "number \<Rightarrow> OrderLevel \<Rightarrow> LevelRow" where
  "levelRow m level =
     \<lparr> row_price = toFixed (orZero (level_price level)) 2,
       row_width = levelWidth m (orZero (level_size level)),
       row_size = toFixed (orZero (level_size level)) 4 \<rparr>"

text \<open>
  \<^verbatim>\<open>(orderBook.asks[0].price - orderBook.bids[0].price).toFixed(2)\<close>, shown when both
  sides have a level; a missing price makes the difference \<^verbatim>\<open>NaN\<close>.
\<close>

definition spreadText :: "OrderLevel list \<Rightarrow> OrderLevel list \<Rightarrow> string" where
  "spreadText bs aks =
     (case aks of
        [] \<Rightarrow> []
      | a # _ \<Rightarrow>
          (case bs of
             [] \<Rightarrow> []
           | b # _ \<Rightarrow>
               (case level_price a of
                  None \<Rightarrow> ''NaN''
                | Some x \<Rightarrow>
                    (case level_price b of None \<Rightarrow> ''NaN'' | Some y \<Rightarrow> toFixed (x - y) 2))))"

text \<open>
  What the component returns: one of the four early views, or the book with the mid
  price, the rows of both sides and the spread.
\<close>

datatype view =
    LoadingView
  | ErrorView string
  | NoDataView
  | IncompleteView
  | BookView string "LevelRow list" "LevelRow list" string

definition renderBook :: "OrderBook \<Rightarrow> view" where
  "renderBook ob =
     (case bids ob of
        None \<Rightarrow> IncompleteView
      | Some bs \<Rightarrow>
          (case asks ob of
             None \<Rightarrow> IncompleteView
           | Some aks \<Rightarrow>
               if bs = [] \<or> aks = [] then IncompleteView
               else BookView (toFixed (orZero (mid ob)) 2)
                      (map (levelRow (maxSize bs aks)) bs)
                      (map (levelRow (maxSize bs aks)) aks)
                      (spreadText bs aks)))"

definition render :: "OrderBookState \<Rightarrow> view" where
  "render st =
     (if c_isLoading st \<and> c_orderBook st = None then LoadingView
      else if c_error st = [] then
        (case c_orderBook st of None \<Rightarrow> NoDataView | Some ob \<Rightarrow> renderBook ob)
      else ErrorView (c_error st))"

text \<open>The bar widths a view shows, bids first; the early views show none.\<close>

definition viewWidths :: "view \<Rightarrow> rat list" where
  "viewWidths v =
     (case v of BookView m brows arows sp \<Rightarrow> map row_width (brows @ arows) | _ \<Rightarrow> [])"

section \<open>What the specification says of the trend series\<close>

text \<open>
  The specification's wording of the trend series, to be compared with
  \<open>slippageWindow\<close>: the most recent \<open>n\<close> of the FILLED records, in chronological order,
  oldest first. Time stamps are ISO-8601 texts of one format, which are ordered in time
  as they are ordered as strings.
\<close>

definition spec_mostRecentOldestFirst :: "nat \<Rightarrow> AnalyticsTrade list \<Rightarrow> AnalyticsTrade list" where
  "spec_mostRecentOldestFirst n fl = sliceLast n (sort_key chartTime fl)"

section \<open>Sample data\<close>

definition sampleTrade ::
  "int \<Rightarrow> string \<Rightarrow> string \<Rightarrow> rat option \<Rightarrow> string \<Rightarrow> AnalyticsTrade" where
  "sampleTrade i symb st slip stamp =
     \<lparr> order_id = i, symbol = symb, side = ''BUY'', order_type = ''MARKET'', quantity = 1,
       limit_price = None, status = st, arrival_mid = None, created_at = stamp, updated_at = stamp,
       exec_id = None, exec_price = None, exec_qty = None, slippage_bps = slip,
       exec_created_at = None \<rparr>"

text \<open>Two fills with slippage 4 and 6, and one pending order.\<close>

definition twoFills :: "AnalyticsTrade list" where
  "twoFills =
     [sampleTrade 1 ''BTC-USD'' ''FILLED'' (Some 4) ''2024-03-01T12:00:00Z'',
      sampleTrade 2 ''BTC-USD'' ''FILLED'' (Some 6) ''2024-03-02T12:00:00Z'']"

definition pendingTrade :: AnalyticsTrade where
  "pendingTrade = sampleTrade 3 ''BTC-USD'' ''PENDING'' None ''2024-03-03T12:00:00Z''"

text \<open>Fills of the days 1 to 21 of one month, the fill of day \<open>d\<close> with slippage \<open>d\<close>.\<close>

definition fillOfDay :: "nat \<Rightarrow> AnalyticsTrade" where
  "fillOfDay d =
     sampleTrade (int d) ''BTC-USD'' ''FILLED'' (Some (of_nat d))
       (''2024-03-'' @ (if d < 10 then ''0'' else []) @ digitsOf (int d) @ ''T12:00:00Z'')"

definition newestFirst21 :: "AnalyticsTrade list" where
  "newestFirst21 = map fillOfDay (rev [1..<22])"

text \<open>A history in which one order carries the empty symbol.\<close>

definition emptySymbolHistory :: "AnalyticsTrade list" where
  "emptySymbolHistory =
     [sampleTrade 1 [] ''FILLED'' (Some 4) ''2024-03-01T12:00:00Z'',
      sampleTrade 2 ''BTC-USD'' ''FILLED'' (Some 6) ''2024-03-02T12:00:00Z'']"

definition limitOrderForm :: TradeForm where
  "limitOrderForm =
     \<lparr> form_side = ''BUY'', form_type = ''LIMIT'', form_quantity = ''1'', form_limitPrice = ''0'' \<rparr>"

definition missingLimitForm :: TradeForm where
  "missingLimitForm =
     \<lparr> form_side = ''BUY'', form_type = ''LIMIT'', form_quantity = ''1'', form_limitPrice = [] \<rparr>"

definition networkError :: VenueError where
  "networkError =
     \<lparr> response_data = None, response_data_message = None, message = Some ''Network Error'' \<rparr>"

definition zeroQuantityForm :: TradeForm where
  "zeroQuantityForm =
     \<lparr> form_side = ''BUY'', form_type = ''MARKET'', form_quantity = ''0'', form_limitPrice = [] \<rparr>"

definition marketRequest :: TradeRequest where
  "marketRequest =
     \<lparr> req_symbol = ''BTC-USD'', req_side = ''BUY'', req_type = ''MARKET'',
       req_quantity = Num 1, req_limit_price = None \<rparr>"

definition pendingResponse :: OrderResponse where
  "pendingResponse =
     \<lparr> o_order_id = 7, o_symbol = ''BTC-USD'', o_side = ''BUY'', o_type = ''LIMIT'',
       o_quantity = 1, o_limit_price = Some 100, o_arrival_mid = Some 101,
       o_exec_price = None, o_slippage = None, o_status = ''PENDING'' \<rparr>"

definition filledResponse :: OrderResponse where
  "filledResponse =
     \<lparr> o_order_id = 8, o_symbol = ''BTC-USD'', o_side = ''BUY'', o_type = ''MARKET'',
       o_quantity = 1, o_limit_price = None, o_arrival_mid = Some 101,
       o_exec_price = Some (2021 / 20), o_slippage = Some (1 / 20), o_status = ''FILLED'' \<rparr>"

definition sampleBook :: OrderBook where
  "sampleBook =
     \<lparr> book_symbol = ''BTC-USD'', mid = Some 100,
       bids = Some [\<lparr> level_side = ''BID'', level_price = Some 99, level_size = Some 2 \<rparr>],
       asks = Some [\<lparr> level_side = ''ASK'', level_price = Some 101, level_size = Some 4 \<rparr>] \<rparr>"

definition oneSidedBook :: OrderBook where
  "oneSidedBook = sampleBook\<lparr> asks := Some [] \<rparr>"

definition sizelessBook :: OrderBook where
  "sizelessBook =
     \<lparr> book_symbol = ''BTC-USD'', mid = Some 100,
       bids = Some [\<lparr> level_side = ''BID'', level_price = Some 99, level_size = Some 0 \<rparr>],
       asks = Some [\<lparr> level_side = ''ASK'', level_price = Some 101, level_size = None \<rparr>] \<rparr>"

section \<open>Facts about rounding to a double\<close>

text \<open>The power by squaring is the power.\<close>

lemma ipow_power: "0 \<le> n \<Longrightarrow> ipow b n = b ^ nat n"
proof (induction b n rule: ipow.induct)
  case (1 b n)
  show ?case
  proof (cases "n \<le> 0")
    case True
    with "1.prems" show ?thesis by (simp add: ipow.simps)
  next
    case False
    then have pos: "0 < n" by simp
    have h: "0 \<le> n div 2" using pos by simp
    show ?thesis
    proof (cases "even n")
      case True
      then obtain k where k: "n = 2 * k" by (elim evenE)
      with pos have "0 \<le> k" by simp
      have "ipow b n = ipow (b * b) (n div 2)"
        using False True by (subst ipow.simps) simp
      also have "\<dots> = (b * b) ^ nat (n div 2)"
        using "1.IH"(1) [OF False True h] .
      also have "\<dots> = b ^ nat n"
        using k \<open>0 \<le> k\<close> by (simp add: power_mult_distrib nat_mult_distrib flip: power2_eq_square power_mult)
      finally show ?thesis .
    next
      case odd: False
      then obtain k where k: "n = 2 * k + 1" by (elim oddE)
      with pos have k0: "0 \<le> k" by simp
      have "ipow b n = b * ipow (b * b) (n div 2)"
        using False odd by (subst ipow.simps) simp
      also have "\<dots> = b * (b * b) ^ nat (n div 2)"
        using "1.IH"(2) [OF False odd h] by simp
      also have "\<dots> = b ^ nat n"
        using k k0 by (simp add: nat_add_distrib nat_mult_distrib flip: power2_eq_square power_mult)
      finally show ?thesis .
    qed
  qed
qed

text \<open>
  Rounding keeps the sign: a quantity that is zero or below never passes for one above
  zero, and one above zero stays above zero unless it is too small for a double and
  becomes zero.
\<close>

lemma binadeUp_pos: "0 < p \<Longrightarrow> 0 < snd (binadeUp a e p)"
proof (induction a e p rule: binadeUp.induct)
  case (1 a e p)
  show ?case
  proof (cases "e < 1023 \<and> 2 * p \<le> a")
    case True
    with "1.prems" have "0 < snd (binadeUp a (e + 1) (2 * p))"
      by (intro "1.IH") simp_all
    with True show ?thesis by (subst binadeUp.simps) simp
  next
    case False
    with "1.prems" show ?thesis by (subst binadeUp.simps) auto
  qed
qed

lemma binadeDown_pos: "0 < p \<Longrightarrow> 0 < snd (binadeDown a e p)"
proof (induction a e p rule: binadeDown.induct)
  case (1 a e p)
  show ?case
  proof (cases "- 1022 < e \<and> a < p")
    case True
    with "1.prems" have "0 < snd (binadeDown a (e - 1) (p / 2))"
      by (intro "1.IH") simp_all
    with True show ?thesis by (subst binadeDown.simps) simp
  next
    case False
    with "1.prems" show ?thesis by (subst binadeDown.simps) auto
  qed
qed

lemma binade_pos: "0 < snd (binade a)"
  by (simp add: binade_def binadeUp_pos binadeDown_pos)

lemma ipow_pos: "0 < b \<Longrightarrow> 0 < ipow b n"
proof (induction b n rule: ipow.induct)
  case (1 b n)
  show ?case
  proof (cases "n \<le> 0")
    case True
    then show ?thesis by (subst ipow.simps) simp
  next
    case False
    from "1.prems" have bb: "0 < b * b" by simp
    show ?thesis
    proof (cases "even n")
      case True
      from "1.IH"(1) [OF False True bb] False True show ?thesis
        by (subst ipow.simps) simp
    next
      case odd: False
      from "1.IH"(2) [OF False odd bb] "1.prems" False odd show ?thesis
        by (subst ipow.simps) simp
    qed
  qed
qed

lemma roundHalfEven_nonneg: "0 \<le> y \<Longrightarrow> 0 \<le> roundHalfEven y"
  by (auto simp: roundHalfEven_def Let_def)

lemma numberValue_sign:
  "(x \<le> 0 \<longrightarrow> numLeZero (numberValue x)) \<and>
   (0 < x \<longrightarrow> numberValue x = Num 0 \<or> \<not> numLeZero (numberValue x))"
proof -
  let ?a = "\<bar>x\<bar>"
  let ?q = "snd (binade ?a) / ipow 2 52"
  let ?v = "of_int (roundHalfEven (?a / ?q)) * ?q"
  have q: "0 < ?q"
    using binade_pos [of ?a] ipow_pos [of 2 52] by simp
  then have "0 \<le> ?a / ?q" by (intro divide_nonneg_pos abs_ge_zero)
  then have "0 \<le> roundHalfEven (?a / ?q)" by (rule roundHalfEven_nonneg)
  then have "(0::rat) \<le> of_int (roundHalfEven (?a / ?q))" by simp
  then have v: "0 \<le> ?v" using q by (intro mult_nonneg_nonneg) simp_all
  show ?thesis
  proof (intro conjI impI)
    assume "x \<le> 0"
    with v show "numLeZero (numberValue x)"
      by (cases "x = 0") (auto simp: numberValue_def Let_def)
  next
    assume "0 < x"
    with v show "numberValue x = Num 0 \<or> \<not> numLeZero (numberValue x)"
      by (auto simp: numberValue_def Let_def)
  qed
qed

text \<open>A tenth is not a double, and \<open>2^53 + 1\<close> lies midway between two doubles.\<close>

lemma parseFloat_rounds:
  "parseFloat ''0.1'' = Num (3602879701896397 / 36028797018963968) \<and>
   parseFloat ''9007199254740993'' = Num 9007199254740992"
  by code_simp

section \<open>Facts about the analytics derivation\<close>

lemma filledTrades_filteredTrades:
  "filledTrades (filteredTrades sel H) = filteredTrades sel (filledTrades H)"
  by (cases sel) (auto simp: filledTrades_def filteredTrades_def conj_commute)

lemma filledTrades_idem: "filledTrades (filledTrades xs) = filledTrades xs"
  by (simp add: filledTrades_def)

lemma filledTrades_append:
  "filledTrades (xs @ ys) = filledTrades xs @ filledTrades ys"
  by (simp add: filledTrades_def)

lemma filteredTrades_append:
  "filteredTrades sel (xs @ ys) = filteredTrades sel xs @ filteredTrades sel ys"
  by (cases sel) (simp_all add: filteredTrades_def)

lemma filteredTrades_Nil: "filteredTrades sel [] = []"
  by (cases sel) (simp_all add: filteredTrades_def)

lemma filteredTrades_Some:
  "S \<noteq> [] \<Longrightarrow> filteredTrades (Some S) H = filter (\<lambda>r. symbol r = S) H"
  by (simp add: filteredTrades_def)

lemma filteredTrades_None: "filteredTrades None H = H"
  by (simp add: filteredTrades_def)

lemma filledTrades_single_other:
  "status p \<noteq> ''FILLED'' \<Longrightarrow> filledTrades (filteredTrades sel [p]) = []"
  by (cases sel) (simp_all add: filledTrades_def filteredTrades_def)

lemma avgSlippage_eq:
  "avgSlippage (stats_local sel H) =
     (if filledTrades (filteredTrades sel H) = [] then ''0''
      else toFixed (slippageSum (filledTrades (filteredTrades sel H)) /
                    of_nat (length (filledTrades (filteredTrades sel H)))) 2)"
  by (simp add: stats_local_def Let_def)

lemma avgSlippage_cong:
  "filledTrades (filteredTrades sel H) = filledTrades (filteredTrades sel' H') \<Longrightarrow>
   avgSlippage (stats_local sel H) = avgSlippage (stats_local sel' H')"
  by (simp add: avgSlippage_eq)

lemma fillRatePercent_bounds:
  assumes "ft \<noteq> []"
  shows "0 \<le> fillRatePercent ft" and "fillRatePercent ft \<le> 100"
proof -
  have le: "length (filledTrades ft) \<le> length ft"
    by (simp add: filledTrades_def)
  have pos: "0 < (of_nat (length ft) :: rat)"
    using assms by simp
  show "0 \<le> fillRatePercent ft"
    by (simp add: fillRatePercent_def)
  have "(of_nat (length (filledTrades ft)) :: rat) \<le> of_nat (length ft)"
    using le by simp
  then have "(of_nat (length (filledTrades ft)) :: rat) * 100 \<le> 100 * of_nat (length ft)"
    by simp
  then show "fillRatePercent ft \<le> 100"
    using pos by (simp add: fillRatePercent_def pos_divide_le_eq)
qed

lemma toFixedScaled_le:
  assumes "0 \<le> x" "x \<le> 100"
  shows "toFixedScaled x 1 \<le> 1000"
proof -
  have "\<bar>x\<bar> * 10 ^ 1 + 1 / 2 < 1001" using assms by simp
  then have "\<lfloor>\<bar>x\<bar> * 10 ^ 1 + 1 / 2\<rfloor> < 1001" by (simp add: floor_less_iff)
  then show ?thesis by (simp add: toFixedScaled_def)
qed

lemma length_sliceLast: "length (sliceLast n xs) = min n (length xs)"
  by (simp add: sliceLast_def)

lemma sliceLast_suffix: "take (length xs - n) xs @ sliceLast n xs = xs"
  by (simp add: sliceLast_def)

lemma set_sliceLast: "set (sliceLast n xs) \<subseteq> set xs"
  by (simp add: sliceLast_def set_drop_subset)

lemma length_slippageWindow: "length (slippageWindow sel H) \<le> 20"
  by (simp add: slippageWindow_def length_sliceLast)

lemma slippageWindow_filled: "list_all (\<lambda>t. status t = ''FILLED'') (slippageWindow sel H)"
proof -
  have "set (slippageWindow sel H) \<subseteq> set (filledTrades (filteredTrades sel H))"
    using set_sliceLast [of 20 "filledTrades (filteredTrades sel H)"]
    by (simp add: slippageWindow_def)
  also have "\<dots> \<subseteq> {t. status t = ''FILLED''}"
    by (auto simp: filledTrades_def)
  finally show ?thesis
    by (auto simp: list_all_iff)
qed

lemma slippageWindow_filter_first:
  "slippageWindow sel H = slippageWindow sel (filledTrades H)"
  by (simp add: slippageWindow_def filledTrades_filteredTrades filledTrades_idem)

lemma toFixed_zero_4: "toFixed 0 4 = ''0.0000''"
  by code_simp

lemma stats_local_Nil:
  "stats_local sel [] =
     \<lparr> totalTrades = 0, fillRate = ''0'', totalQuantity = ''0.0000'', avgSlippage = ''0'',
       buyTrades = 0, sellTrades = 0 \<rparr>"
  by (simp add: stats_local_def filteredTrades_Nil filledTrades_def execQtySum_def
      toFixed_zero_4)

lemma slippageChartData_Nil: "slippageChartData sel [] = \<lparr> labels = [], chart_data = [] \<rparr>"
  by (simp add: slippageChartData_def slippageWindow_def filteredTrades_Nil filledTrades_def
      sliceLast_def)

lemma fetchAllTrades_null:
  "fetchAllTrades (Resolved None) w =
     (Returned, w\<lparr> store := (store w)\<lparr> isLoading := False, error := None, trades := [] \<rparr>,
                   requests := requests w @ [GetOrders] \<rparr>)"
  by (simp add: fetchAllTrades_def)

section \<open>Average slippage counts fills only\<close>

text \<open>
  Claim C1. For every history \<open>H\<close> and every selection, the average slippage is the one
  of the FILLED records of \<open>H\<close> alone: dropping every record that is not FILLED leaves it
  as it is. So appending a record whose status is not FILLED (a PENDING one, whatever its
  execution fields hold) never changes it, and it is the text \<open>0\<close> when \<open>H\<close> has no FILLED
  record.
\<close>

theorem avgSlippage_filled_only:
  "avgSlippage (stats_local sel H) = avgSlippage (stats_local sel (filledTrades H)) \<and>
   (status p \<noteq> ''FILLED'' \<longrightarrow>
      avgSlippage (stats_local sel (H @ [p])) = avgSlippage (stats_local sel H)) \<and>
   (filledTrades H = [] \<longrightarrow> avgSlippage (stats_local sel H) = ''0'')"
proof (intro conjI impI)
  show "avgSlippage (stats_local sel H) = avgSlippage (stats_local sel (filledTrades H))"
    by (rule avgSlippage_cong) (simp add: filledTrades_filteredTrades filledTrades_idem)
next
  assume p: "status p \<noteq> ''FILLED''"
  have "filledTrades (filteredTrades sel (H @ [p])) = filledTrades (filteredTrades sel H)"
    by (simp add: filteredTrades_append filledTrades_append filledTrades_single_other [OF p])
  then show "avgSlippage (stats_local sel (H @ [p])) = avgSlippage (stats_local sel H)"
    by (rule avgSlippage_cong)
next
  assume "filledTrades H = []"
  then have "filledTrades (filteredTrades sel H) = []"
    by (simp add: filledTrades_filteredTrades filteredTrades_Nil)
  then show "avgSlippage (stats_local sel H) = ''0''"
    by (simp add: avgSlippage_eq)
qed

text \<open>
  At the two fills with slippage 4 and 6 the average is \<open>5.00\<close>, with and without the
  pending order appended; the pending order alone gives \<open>0\<close>.
\<close>

theorem avgSlippage_filled_only_witness:
  "status pendingTrade \<noteq> ''FILLED'' \<and>
   avgSlippage (stats_local None (twoFills @ [pendingTrade])) = ''5.00'' \<and>
   avgSlippage (stats_local None twoFills) = ''5.00'' \<and>
   filledTrades [pendingTrade] = [] \<and>
   avgSlippage (stats_local None [pendingTrade]) = ''0''"
proof -
  have p: "status pendingTrade \<noteq> ''FILLED''"
    by (simp add: pendingTrade_def sampleTrade_def)
  have e: "filledTrades [pendingTrade] = []"
    using p by (simp add: filledTrades_def)
  have v: "avgSlippage (stats_local None twoFills) = ''5.00''"
    by code_simp
  from avgSlippage_filled_only [of None twoFills pendingTrade] p
  have a: "avgSlippage (stats_local None (twoFills @ [pendingTrade])) =
      avgSlippage (stats_local None twoFills)"
    by blast
  from avgSlippage_filled_only [of None "[pendingTrade]" pendingTrade] e
  have z: "avgSlippage (stats_local None [pendingTrade]) = ''0''"
    by blast
  from p e v a z show ?thesis by simp
qed

section \<open>Fill rate\<close>

text \<open>
  Claim C5. For every history \<open>H\<close> and selection, the fill rate is the text \<open>0\<close> when no
  record is selected, and otherwise the count of FILLED records divided by the count of
  records, times 100, shown with one decimal. That percentage lies between 0 and 100, and
  so does the number shown: it is at most 1000 tenths. On the empty history the fill rate
  is \<open>0\<close>.
\<close>

theorem fillRate_range:
  "fillRate (stats_local sel H) =
     (if filteredTrades sel H = [] then ''0''
      else toFixed (of_nat (length (filledTrades (filteredTrades sel H))) /
                    of_nat (length (filteredTrades sel H)) * 100) 1) \<and>
   (filteredTrades sel H \<noteq> [] \<longrightarrow>
      0 \<le> fillRatePercent (filteredTrades sel H) \<and>
      fillRatePercent (filteredTrades sel H) \<le> 100 \<and>
      toFixedScaled (fillRatePercent (filteredTrades sel H)) 1 \<le> 1000) \<and>
   fillRate (stats_local sel []) = ''0''"
proof (intro conjI impI)
  show "fillRate (stats_local sel H) =
     (if filteredTrades sel H = [] then ''0''
      else toFixed (of_nat (length (filledTrades (filteredTrades sel H))) /
                    of_nat (length (filteredTrades sel H)) * 100) 1)"
    by (simp add: stats_local_def Let_def fillRatePercent_def)
next
  assume ne: "filteredTrades sel H \<noteq> []"
  show "0 \<le> fillRatePercent (filteredTrades sel H)"
    by (rule fillRatePercent_bounds(1) [OF ne])
  show "fillRatePercent (filteredTrades sel H) \<le> 100"
    by (rule fillRatePercent_bounds(2) [OF ne])
  show "toFixedScaled (fillRatePercent (filteredTrades sel H)) 1 \<le> 1000"
    by (rule toFixedScaled_le [OF fillRatePercent_bounds [OF ne]])
next
  show "fillRate (stats_local sel []) = ''0''"
    by (simp add: stats_local_def Let_def filteredTrades_Nil)
qed

text \<open>Two fills and one pending order: two thirds, shown as \<open>66.7\<close>.\<close>

theorem fillRate_range_witness:
  "filteredTrades None (twoFills @ [pendingTrade]) \<noteq> [] \<and>
   0 \<le> fillRatePercent (filteredTrades None (twoFills @ [pendingTrade])) \<and>
   fillRatePercent (filteredTrades None (twoFills @ [pendingTrade])) \<le> 100 \<and>
   fillRate (stats_local None (twoFills @ [pendingTrade])) = ''66.7''"
proof -
  have ne: "filteredTrades None (twoFills @ [pendingTrade]) \<noteq> []"
    by (simp add: filteredTrades_None)
  have v: "fillRate (stats_local None (twoFills @ [pendingTrade])) = ''66.7''"
    by code_simp
  from fillRate_range [of None "twoFills @ [pendingTrade]"] ne v show ?thesis
    by blast
qed

section \<open>The slippage trend series\<close>

text \<open>
  Claim C3, as the code has it. The trend series has at most 20 entries, in its labels
  and in its data; every record behind it is FILLED; records that are not FILLED are
  dropped before the window is cut, so the series of a history is the series of its
  FILLED records and a backlog of pending orders displaces nothing. The window is the
  last 20 FILLED records of the selected history, in the order the history is held (all
  of them when there are fewer), and the series shows them in the reverse of that order.
  No time stamp is compared: which records are the most recent, and whether the oldest
  comes first, rests on the order in which the history arrived.
\<close>

theorem slippage_trend_window:
  "length (labels (slippageChartData sel H)) \<le> 20 \<and>
   length (chart_data (slippageChartData sel H)) \<le> 20 \<and>
   list_all (\<lambda>t. status t = ''FILLED'') (slippageWindow sel H) \<and>
   slippageWindow sel H = slippageWindow sel (filledTrades H) \<and>
   (\<exists>older. filledTrades (filteredTrades sel H) = older @ rev (slippageWindow sel H) \<and>
            length older = length (filledTrades (filteredTrades sel H)) - 20) \<and>
   labels (slippageChartData sel H) = map chartTime (slippageWindow sel H) \<and>
   chart_data (slippageChartData sel H) =
     map (\<lambda>t. orZero (slippage_bps t)) (slippageWindow sel H)"
proof (intro conjI)
  show "length (labels (slippageChartData sel H)) \<le> 20"
    by (simp add: slippageChartData_def length_slippageWindow)
  show "length (chart_data (slippageChartData sel H)) \<le> 20"
    by (simp add: slippageChartData_def length_slippageWindow)
  show "list_all (\<lambda>t. status t = ''FILLED'') (slippageWindow sel H)"
    by (rule slippageWindow_filled)
  show "slippageWindow sel H = slippageWindow sel (filledTrades H)"
    by (rule slippageWindow_filter_first)
  let ?fl = "filledTrades (filteredTrades sel H)"
  have "?fl = take (length ?fl - 20) ?fl @ rev (slippageWindow sel H)"
    by (simp add: slippageWindow_def sliceLast_suffix)
  moreover have "length (take (length ?fl - 20) ?fl) = length ?fl - 20"
    by simp
  ultimately show "\<exists>older. ?fl = older @ rev (slippageWindow sel H) \<and>
      length older = length ?fl - 20"
    by blast
  show "labels (slippageChartData sel H) = map chartTime (slippageWindow sel H)"
    by (simp add: slippageChartData_def)
  show "chart_data (slippageChartData sel H) =
     map (\<lambda>t. orZero (slippage_bps t)) (slippageWindow sel H)"
    by (simp add: slippageChartData_def)
qed

text \<open>
  The specification asks for the most recent 20 FILLED records, oldest first. Two fills
  held oldest first come out newest first; and of 21 fills held newest first the series
  shows the 20 oldest, oldest first, and leaves out the most recent one.
\<close>

theorem slippage_trend_order_counterexample:
  "slippageWindow None twoFills \<noteq>
     spec_mostRecentOldestFirst 20 (filledTrades (filteredTrades None twoFills)) \<and>
   map order_id (slippageWindow None twoFills) = [2, 1] \<and>
   map order_id (spec_mostRecentOldestFirst 20 (filledTrades (filteredTrades None twoFills))) = [1, 2] \<and>
   slippageWindow None newestFirst21 \<noteq>
     spec_mostRecentOldestFirst 20 (filledTrades (filteredTrades None newestFirst21)) \<and>
   map order_id (slippageWindow None newestFirst21) =
     [1, 2, 3, 4, 5, 6, 7, 8, 9, 10, 11, 12, 13, 14, 15, 16, 17, 18, 19, 20] \<and>
   map order_id (spec_mostRecentOldestFirst 20 (filledTrades (filteredTrades None newestFirst21))) =
     [2, 3, 4, 5, 6, 7, 8, 9, 10, 11, 12, 13, 14, 15, 16, 17, 18, 19, 20, 21]"
  by code_simp

section \<open>Filtering by symbol\<close>

text \<open>
  With a symbol selected that is not the empty text, the statistics and the trend series
  are those computed, with nothing selected, over the records of that symbol.
\<close>

lemma symbol_filter_nonempty:
  "S \<noteq> [] \<Longrightarrow>
   stats_local (Some S) H = stats_local None (filter (\<lambda>r. symbol r = S) H) \<and>
   slippageChartData (Some S) H = slippageChartData None (filter (\<lambda>r. symbol r = S) H)"
proof -
  assume S: "S \<noteq> []"
  have eq: "filteredTrades (Some S) H = filteredTrades None (filter (\<lambda>r. symbol r = S) H)"
    by (simp add: filteredTrades_Some [OF S] filteredTrades_None)
  have "stats_local (Some S) H = stats_local None (filter (\<lambda>r. symbol r = S) H)"
    unfolding stats_local_def eq ..
  moreover have "slippageChartData (Some S) H =
      slippageChartData None (filter (\<lambda>r. symbol r = S) H)"
    unfolding slippageChartData_def slippageWindow_def eq ..
  ultimately show ?thesis ..
qed

lemma symbol_filter_nonempty_example:
  "''BTC-USD'' \<noteq> [] \<and>
   stats_local (Some ''BTC-USD'') emptySymbolHistory =
     stats_local None (filter (\<lambda>r. symbol r = ''BTC-USD'') emptySymbolHistory) \<and>
   avgSlippage (stats_local (Some ''BTC-USD'') emptySymbolHistory) = ''6.00''"
proof -
  have ne: "''BTC-USD'' \<noteq> []" by simp
  have v: "avgSlippage (stats_local (Some ''BTC-USD'') emptySymbolHistory) = ''6.00''"
    by code_simp
  from symbol_filter_nonempty [OF ne, of emptySymbolHistory] ne v show ?thesis by blast
qed

text \<open>
  Claim C9. Selecting a symbol \<open>S\<close> is to give the statistics of the records of \<open>H\<close>
  whose symbol is \<open>S\<close>. At the empty symbol the code does not. The filter tests the
  selection for truthiness, \<^verbatim>\<open>selectedSymbol ? ... : trades\<close>, where the buttons beside
  it compare with \<^verbatim>\<open>selectedSymbol === null\<close> and \<^verbatim>\<open>selectedSymbol === symbol\<close>. In a
  history with one order of the empty symbol and one of another symbol, the button of the
  empty symbol is shown as selected while the statistics are those of the whole history:
  two trades and an average slippage of \<open>5.00\<close>, where the records of the empty symbol
  are one trade with \<open>4.00\<close>.
\<close>

theorem empty_symbol_selection_shows_all:
  "stats_local (Some []) emptySymbolHistory = stats_local None emptySymbolHistory \<and>
   stats_local (Some []) emptySymbolHistory \<noteq>
     stats_local None (filter (\<lambda>r. symbol r = []) emptySymbolHistory) \<and>
   totalTrades (stats_local (Some []) emptySymbolHistory) = 2 \<and>
   totalTrades (stats_local None (filter (\<lambda>r. symbol r = []) emptySymbolHistory)) = 1 \<and>
   avgSlippage (stats_local (Some []) emptySymbolHistory) = ''5.00'' \<and>
   avgSlippage (stats_local None (filter (\<lambda>r. symbol r = []) emptySymbolHistory)) = ''4.00''"
  by code_simp

section \<open>The empty account\<close>

text \<open>
  Claim C4. When \<^verbatim>\<open>/me/orders\<close> answers with \<^verbatim>\<open>null\<close> (or no data), the action returns
  without throwing, the \<open>trades\<close> slot holds the empty list and no error is set; over
  it, for any selection, every statistic takes its zero value (the fill rate and the
  average slippage are the text \<open>0\<close>, the quantity is \<open>0.0000\<close>, the counts are 0) and the
  trend series is empty. The derivation has no failing step.
\<close>

theorem empty_account_zero_stats:
  "fst (fetchAllTrades (Resolved None) w) = Returned \<and>
   trades (store (snd (fetchAllTrades (Resolved None) w))) = [] \<and>
   error (store (snd (fetchAllTrades (Resolved None) w))) = None \<and>
   stats_local sel (trades (store (snd (fetchAllTrades (Resolved None) w)))) =
     \<lparr> totalTrades = 0, fillRate = ''0'', totalQuantity = ''0.0000'', avgSlippage = ''0'',
       buyTrades = 0, sellTrades = 0 \<rparr> \<and>
   slippageChartData sel (trades (store (snd (fetchAllTrades (Resolved None) w)))) =
     \<lparr> labels = [], chart_data = [] \<rparr>"
proof -
  have t: "trades (store (snd (fetchAllTrades (Resolved None) w))) = []"
    by (simp add: fetchAllTrades_null)
  have r: "fst (fetchAllTrades (Resolved None) w) = Returned"
    by (simp add: fetchAllTrades_null)
  have e: "error (store (snd (fetchAllTrades (Resolved None) w))) = None"
    by (simp add: fetchAllTrades_null)
  show ?thesis
    unfolding t by (intro conjI r e refl stats_local_Nil slippageChartData_Nil)
qed

section \<open>Facts about the store actions\<close>

lemma fetchDashboardStats_rejected:
  "fetchDashboardStats (Rejected err) w =
     (Returned, w\<lparr> requests := requests w @ [GetStats],
                   console := console w @ [''Failed to fetch dashboard stats:''] \<rparr>)"
  by (simp add: fetchDashboardStats_def)

lemma fetchDashboardStats_returns: "fst (fetchDashboardStats resp w) = Returned"
  by (cases resp) (simp_all add: fetchDashboardStats_def)

lemma fetchDashboardStats_requests:
  "requests (snd (fetchDashboardStats resp w)) = requests w @ [GetStats]"
  by (cases resp) (simp_all add: fetchDashboardStats_def)

lemma dashboardPolling_requests:
  "requests (dashboardPolling rs w) = requests w @ replicate (length rs) GetStats"
proof (induction rs arbitrary: w)
  case Nil
  show ?case by simp
next
  case (Cons r rs)
  show ?case
    by (simp add: Cons.IH fetchDashboardStats_requests replicate_app_Cons_same)
qed

lemma dashboardPolling_all_rejected:
  "store (dashboardPolling (map Rejected errs) w) = store w"
  by (induction errs arbitrary: w) (simp_all add: fetchDashboardStats_rejected)

lemma dashboardPolling_append:
  "dashboardPolling (rs @ rs') w = dashboardPolling rs' (dashboardPolling rs w)"
  by (induction rs arbitrary: w) simp_all

lemma submitTrade_resolved:
  "submitTrade trade (Resolved ord) w =
     (Returned, w\<lparr> store := (store w)\<lparr> isLoading := False, error := None, lastOrder := Some ord \<rparr>,
                   requests := requests w @ [PostTrade trade] \<rparr>)"
  by (simp add: submitTrade_def)

lemma lastOrderBanner_total_iff:
  "(\<exists>v. lastOrderBanner (Some ord) = Inr v) \<longleftrightarrow>
     (o_exec_price ord \<noteq> None \<and> o_slippage ord \<noteq> None)"
  by (auto simp: lastOrderBanner_def split: option.splits)

lemma lastOrderBanner_fails:
  "o_exec_price ord = None \<or> o_slippage ord = None \<Longrightarrow>
   lastOrderBanner (Some ord) = Inl TypeError"
  by (auto simp: lastOrderBanner_def split: option.splits)

lemma lastOrderBanner_filledResponse:
  "lastOrderBanner (Some filledResponse) = Inr (Some (''101.05'', ''0.0500''))"
  by code_simp

lemma handleSubmit_rejects:
  "form_quantity form = [] \<or> numLeZero (parseFloat (form_quantity form)) \<Longrightarrow>
   handleSubmit symb form resp w =
     (form, w\<lparr> alerts := alerts w @ [''Please enter a valid quantity''] \<rparr>)"
  by (simp add: handleSubmit_def)

lemma submitTrade_requests:
  "requests (snd (submitTrade trade resp w)) = requests w @ [PostTrade trade]"
  by (cases resp) (simp_all add: submitTrade_def)

lemma submitTrade_alerts: "alerts (snd (submitTrade trade resp w)) = alerts w"
  by (cases resp) (simp_all add: submitTrade_def)

lemma handleSubmit_sends:
  assumes "\<not> (form_quantity form = [] \<or> numLeZero (parseFloat (form_quantity form)))"
  shows "snd (handleSubmit symb form resp w) =
     snd (submitTrade
       \<lparr> req_symbol = symb, req_side = form_side form, req_type = form_type form,
         req_quantity = parseFloat (form_quantity form),
         req_limit_price =
           (if form_type form = ''LIMIT'' then Some (parseFloat (form_limitPrice form))
            else None) \<rparr> resp w)"
  using assms
  by (cases resp) (simp_all add: handleSubmit_def Let_def submitTrade_def)

lemma parse_0: "parseFloat ''0'' = Num 0" by code_simp
lemma parse_1: "parseFloat ''1'' = Num 1" by code_simp

section \<open>The dashboard poller swallows failures\<close>

text \<open>
  Claim C8. A failed \<^verbatim>\<open>fetchDashboardStats\<close> writes one line to the console, leaves
  every slot of the store as it was (no error is set) and returns to its caller; the
  action returns whatever the answer is. In a run of the poller every call is made,
  whatever the earlier ones met: the requests sent are as many as the calls. A run of
  failures leaves the store untouched, and the answer to a call that follows a failed
  one is stored.
\<close>

theorem dashboard_failure_swallowed:
  "fetchDashboardStats (Rejected err) w =
     (Returned, w\<lparr> requests := requests w @ [GetStats],
                   console := console w @ [''Failed to fetch dashboard stats:''] \<rparr>) \<and>
   store (snd (fetchDashboardStats (Rejected err) w)) = store w \<and>
   fst (fetchDashboardStats resp w) = Returned \<and>
   requests (dashboardPolling rs w) = requests w @ replicate (length rs) GetStats \<and>
   store (dashboardPolling (map Rejected errs) w) = store w \<and>
   dashboardStats (store (dashboardPolling (rs @ [Rejected err, Resolved d]) w)) = d"
proof (intro conjI)
  show "fetchDashboardStats (Rejected err) w =
     (Returned, w\<lparr> requests := requests w @ [GetStats],
                   console := console w @ [''Failed to fetch dashboard stats:''] \<rparr>)"
    by (rule fetchDashboardStats_rejected)
  show "store (snd (fetchDashboardStats (Rejected err) w)) = store w"
    by (simp add: fetchDashboardStats_rejected)
  show "fst (fetchDashboardStats resp w) = Returned"
    by (rule fetchDashboardStats_returns)
  show "requests (dashboardPolling rs w) = requests w @ replicate (length rs) GetStats"
    by (rule dashboardPolling_requests)
  show "store (dashboardPolling (map Rejected errs) w) = store w"
    by (rule dashboardPolling_all_rejected)
  show "dashboardStats (store (dashboardPolling (rs @ [Rejected err, Resolved d]) w)) = d"
    by (simp add: dashboardPolling_append fetchDashboardStats_def)
qed

section \<open>The confirmation banner\<close>

text \<open>
  Claim C10. A resolved submission stores the answer as the last order. The banner then
  formats \<open>exec_price\<close> and \<open>slippage\<close> of that order without looking at its status:
  it renders exactly when both fields are present, and fails with a type error when one
  of them is absent, as in a pending answer without execution data.
\<close>

theorem banner_needs_execution_fields:
  "lastOrder (store (snd (submitTrade trade (Resolved ord) w))) = Some ord \<and>
   ((\<exists>v. lastOrderBanner (Some ord) = Inr v) \<longleftrightarrow>
      (o_exec_price ord \<noteq> None \<and> o_slippage ord \<noteq> None)) \<and>
   (o_exec_price ord = None \<or> o_slippage ord = None \<longrightarrow>
      lastOrderBanner (Some ord) = Inl TypeError) \<and>
   lastOrderBanner (Some (ord\<lparr> o_status := st \<rparr>)) = lastOrderBanner (Some ord)"
proof (intro conjI impI)
  show "lastOrder (store (snd (submitTrade trade (Resolved ord) w))) = Some ord"
    by (simp add: submitTrade_resolved)
  show "(\<exists>v. lastOrderBanner (Some ord) = Inr v) \<longleftrightarrow>
      (o_exec_price ord \<noteq> None \<and> o_slippage ord \<noteq> None)"
    by (rule lastOrderBanner_total_iff)
  show "lastOrderBanner (Some (ord\<lparr> o_status := st \<rparr>)) = lastOrderBanner (Some ord)"
    by (simp add: lastOrderBanner_def split: option.splits)
next
  assume "o_exec_price ord = None \<or> o_slippage ord = None"
  then show "lastOrderBanner (Some ord) = Inl TypeError"
    by (rule lastOrderBanner_fails)
qed

text \<open>A pending answer without execution data fails; a filled one renders.\<close>

theorem banner_needs_execution_fields_witness:
  "o_status pendingResponse = ''PENDING'' \<and> o_exec_price pendingResponse = None \<and>
   lastOrder (store (snd (submitTrade marketRequest (Resolved pendingResponse) initialWorld))) =
     Some pendingResponse \<and>
   lastOrderBanner (Some pendingResponse) = Inl TypeError \<and>
   lastOrderBanner (Some filledResponse) = Inr (Some (''101.05'', ''0.0500''))"
proof -
  note T = banner_needs_execution_fields [of marketRequest pendingResponse initialWorld]
  have s: "o_status pendingResponse = ''PENDING''"
    by (simp add: pendingResponse_def)
  have n: "o_exec_price pendingResponse = None"
    by (simp add: pendingResponse_def)
  have a: "lastOrder (store (snd (submitTrade marketRequest (Resolved pendingResponse)
      initialWorld))) = Some pendingResponse"
    by (rule conjunct1 [OF T])
  have "o_exec_price pendingResponse = None \<or> o_slippage pendingResponse = None \<longrightarrow>
      lastOrderBanner (Some pendingResponse) = Inl TypeError"
    by (rule conjunct1 [OF conjunct2 [OF conjunct2 [OF T]]])
  with n have b: "lastOrderBanner (Some pendingResponse) = Inl TypeError"
    by simp
  show ?thesis
    by (intro conjI s n a b lastOrderBanner_filledResponse)
qed

section \<open>What the trade form checks before it submits\<close>

lemma submitForm_blocked:
  "requiredMissing form \<Longrightarrow> submitForm accepts symb form resp w = (form, w)"
  by (simp add: submitForm_def)

lemma submitForm_delivered:
  assumes "requests (snd (submitForm accepts symb form resp w)) = requests w @ [PostTrade t]"
  shows "\<not> requiredMissing form"
    and "submitForm accepts symb form resp w = handleSubmit symb form resp w"
proof -
  show nm: "\<not> requiredMissing form"
  proof
    assume "requiredMissing form"
    then have "requests (snd (submitForm accepts symb form resp w)) = requests w"
      by (simp add: submitForm_blocked)
    with assms show False by simp
  qed
  have "accepts form"
  proof (rule ccontr)
    assume "\<not> accepts form"
    then have "requests (snd (submitForm accepts symb form resp w)) = requests w"
      by (simp add: submitForm_def)
    with assms show False by simp
  qed
  with nm show "submitForm accepts symb form resp w = handleSubmit symb form resp w"
    by (simp add: submitForm_def)
qed

lemma handleSubmit_sent:
  assumes "requests (snd (handleSubmit symb form resp w)) = requests w @ [PostTrade t]"
  shows "form_quantity form \<noteq> []"
    and "\<not> numLeZero (parseFloat (form_quantity form))"
    and "t = \<lparr> req_symbol = symb, req_side = form_side form, req_type = form_type form,
              req_quantity = parseFloat (form_quantity form),
              req_limit_price =
                (if form_type form = ''LIMIT'' then Some (parseFloat (form_limitPrice form))
                 else None) \<rparr>"
proof -
  have ok: "\<not> (form_quantity form = [] \<or> numLeZero (parseFloat (form_quantity form)))"
  proof
    assume "form_quantity form = [] \<or> numLeZero (parseFloat (form_quantity form))"
    then have "requests (snd (handleSubmit symb form resp w)) = requests w"
      by (simp add: handleSubmit_rejects)
    with assms show False by simp
  qed
  then show "form_quantity form \<noteq> []" and "\<not> numLeZero (parseFloat (form_quantity form))"
    by simp_all
  from assms show "t = \<lparr> req_symbol = symb, req_side = form_side form, req_type = form_type form,
              req_quantity = parseFloat (form_quantity form),
              req_limit_price =
                (if form_type form = ''LIMIT'' then Some (parseFloat (form_limitPrice form))
                 else None) \<rparr>"
    by (simp only: handleSubmit_sends [OF ok] submitTrade_requests) simp
qed

text \<open>
  Claim C2, as the code has it. Before any request two things are checked. The form
  delivers no submit event while a required input is empty: the quantity, and for a
  LIMIT order the limit price; nothing is sent then. And \<^verbatim>\<open>handleSubmit\<close> answers a
  quantity text that is empty or parses to a number that is not above zero with an
  alert, sends nothing and leaves the store as it is. Otherwise the handler sends one
  \<^verbatim>\<open>POST /trade/\<close> and raises no alert; the request carries the parsed quantity and,
  for a LIMIT order, the parsed limit price. So a request that the form has sent carries
  a quantity that is not zero or below and, for a LIMIT order, a limit price that was
  typed in. That the limit price is above zero is checked nowhere.
\<close>

theorem trade_submission_local_checks:
  "(requiredMissing form \<longrightarrow> submitForm accepts symb form resp w = (form, w)) \<and>
   (form_quantity form = [] \<or> numLeZero (parseFloat (form_quantity form)) \<longrightarrow>
      handleSubmit symb form resp w =
        (form, w\<lparr> alerts := alerts w @ [''Please enter a valid quantity''] \<rparr>) \<and>
      requests (snd (handleSubmit symb form resp w)) = requests w \<and>
      store (snd (handleSubmit symb form resp w)) = store w) \<and>
   (\<not> (form_quantity form = [] \<or> numLeZero (parseFloat (form_quantity form))) \<longrightarrow>
      requests (snd (handleSubmit symb form resp w)) =
        requests w @
        [PostTrade
           \<lparr> req_symbol = symb, req_side = form_side form, req_type = form_type form,
             req_quantity = parseFloat (form_quantity form),
             req_limit_price =
               (if form_type form = ''LIMIT'' then Some (parseFloat (form_limitPrice form))
                else None) \<rparr>] \<and>
      alerts (snd (handleSubmit symb form resp w)) = alerts w) \<and>
   (\<forall>t. requests (snd (submitForm accepts symb form resp w)) = requests w @ [PostTrade t] \<longrightarrow>
        form_quantity form \<noteq> [] \<and>
        req_quantity t = parseFloat (form_quantity form) \<and>
        \<not> numLeZero (req_quantity t) \<and>
        (req_type t = ''LIMIT'' \<longrightarrow>
           form_limitPrice form \<noteq> [] \<and>
           req_limit_price t = Some (parseFloat (form_limitPrice form))))"
proof (intro conjI impI allI)
  assume "requiredMissing form"
  then show "submitForm accepts symb form resp w = (form, w)"
    by (rule submitForm_blocked)
next
  assume bad: "form_quantity form = [] \<or> numLeZero (parseFloat (form_quantity form))"
  show "handleSubmit symb form resp w =
        (form, w\<lparr> alerts := alerts w @ [''Please enter a valid quantity''] \<rparr>)"
    by (rule handleSubmit_rejects [OF bad])
  show "requests (snd (handleSubmit symb form resp w)) = requests w"
    by (simp add: handleSubmit_rejects [OF bad])
  show "store (snd (handleSubmit symb form resp w)) = store w"
    by (simp add: handleSubmit_rejects [OF bad])
next
  assume ok: "\<not> (form_quantity form = [] \<or> numLeZero (parseFloat (form_quantity form)))"
  show "requests (snd (handleSubmit symb form resp w)) =
        requests w @
        [PostTrade
           \<lparr> req_symbol = symb, req_side = form_side form, req_type = form_type form,
             req_quantity = parseFloat (form_quantity form),
             req_limit_price =
               (if form_type form = ''LIMIT'' then Some (parseFloat (form_limitPrice form))
                else None) \<rparr>]"
    by (simp only: handleSubmit_sends [OF ok] submitTrade_requests)
  show "alerts (snd (handleSubmit symb form resp w)) = alerts w"
    by (simp only: handleSubmit_sends [OF ok] submitTrade_alerts)
next
  fix t
  assume sent: "requests (snd (submitForm accepts symb form resp w)) = requests w @ [PostTrade t]"
  note nm = submitForm_delivered(1) [OF sent]
  from sent have hs: "requests (snd (handleSubmit symb form resp w)) = requests w @ [PostTrade t]"
    by (simp only: submitForm_delivered(2) [OF sent])
  note q = handleSubmit_sent [OF hs]
  show "form_quantity form \<noteq> []" by (rule q(1))
  show rq: "req_quantity t = parseFloat (form_quantity form)"
    by (subst q(3)) simp
  show "\<not> numLeZero (req_quantity t)"
    unfolding rq by (rule q(2))
  {
    assume lim: "req_type t = ''LIMIT''"
    have ty: "req_type t = form_type form"
      by (subst q(3)) simp
    with lim have fl: "form_type form = ''LIMIT''" by simp
    with nm show "form_limitPrice form \<noteq> []"
      by (simp add: requiredMissing_def)
    show "req_limit_price t = Some (parseFloat (form_limitPrice form))"
      by (subst q(3)) (simp add: fl)
  }
qed

text \<open>
  A LIMIT order without a limit price is held back by the form, a quantity of \<open>0\<close> is
  stopped with an alert, and a quantity of \<open>1\<close> is sent.
\<close>

theorem trade_submission_local_checks_witness:
  "requiredMissing missingLimitForm \<and>
   submitForm (\<lambda>f. True) ''BTC-USD'' missingLimitForm (Resolved filledResponse) initialWorld =
     (missingLimitForm, initialWorld) \<and>
   numLeZero (parseFloat (form_quantity zeroQuantityForm)) \<and>
   requests (snd (handleSubmit ''BTC-USD'' zeroQuantityForm (Resolved filledResponse) initialWorld)) = [] \<and>
   alerts (snd (handleSubmit ''BTC-USD'' zeroQuantityForm (Resolved filledResponse) initialWorld)) =
     [''Please enter a valid quantity''] \<and>
   \<not> (form_quantity limitOrderForm = [] \<or>
      numLeZero (parseFloat (form_quantity limitOrderForm))) \<and>
   length (requests (snd (handleSubmit ''BTC-USD'' limitOrderForm (Resolved filledResponse) initialWorld))) = 1"
proof -
  note T1 = trade_submission_local_checks
    [of missingLimitForm "\<lambda>f. True" "''BTC-USD''" "Resolved filledResponse" initialWorld]
  note T2 = trade_submission_local_checks
    [of zeroQuantityForm "\<lambda>f. True" "''BTC-USD''" "Resolved filledResponse" initialWorld]
  note T3 = trade_submission_local_checks
    [of limitOrderForm "\<lambda>f. True" "''BTC-USD''" "Resolved filledResponse" initialWorld]
  have m: "requiredMissing missingLimitForm"
    by (simp add: requiredMissing_def missingLimitForm_def)
  have z: "numLeZero (parseFloat (form_quantity zeroQuantityForm))"
    by (simp add: zeroQuantityForm_def parse_0)
  have ok: "\<not> (form_quantity limitOrderForm = [] \<or>
      numLeZero (parseFloat (form_quantity limitOrderForm)))"
    by (simp add: limitOrderForm_def parse_1)
  from conjunct1 [OF T1] m
  have a: "submitForm (\<lambda>f. True) ''BTC-USD'' missingLimitForm (Resolved filledResponse)
      initialWorld = (missingLimitForm, initialWorld)"
    by (rule mp)
  from conjunct1 [OF conjunct2 [OF T2]] z
  have b: "handleSubmit ''BTC-USD'' zeroQuantityForm (Resolved filledResponse) initialWorld =
      (zeroQuantityForm,
       initialWorld\<lparr> alerts := alerts initialWorld @ [''Please enter a valid quantity''] \<rparr>)"
    by simp
  from conjunct1 [OF conjunct2 [OF conjunct2 [OF T3]]] ok
  have c: "length (requests (snd (handleSubmit ''BTC-USD'' limitOrderForm
      (Resolved filledResponse) initialWorld))) = length (requests initialWorld) + 1"
    by simp
  from m a z b ok c show ?thesis by (simp add: initialWorld_def)
qed

text \<open>
  The specification has the limit price checked to be above zero as well. A LIMIT order
  with the limit price \<open>0\<close> has every required input filled, raises no alert and
  reaches the venue.
\<close>

theorem limit_price_unchecked_counterexample:
  "form_type limitOrderForm = ''LIMIT'' \<and> form_limitPrice limitOrderForm = ''0'' \<and>
   \<not> requiredMissing limitOrderForm \<and>
   requests (snd (handleSubmit ''BTC-USD'' limitOrderForm (Resolved filledResponse) initialWorld)) =
     [PostTrade \<lparr> req_symbol = ''BTC-USD'', req_side = ''BUY'', req_type = ''LIMIT'',
                   req_quantity = Num 1, req_limit_price = Some (Num 0) \<rparr>] \<and>
   alerts (snd (handleSubmit ''BTC-USD'' limitOrderForm (Resolved filledResponse) initialWorld)) = []"
  by code_simp

section \<open>The order book: no division by zero\<close>

lemma mathMax_cases:
  "(xs = [] \<and> mathMax xs = NegInfinity) \<or> (\<exists>m. mathMax xs = Num m \<and> m \<in> set xs)"
proof (induction xs)
  case Nil
  show ?case by simp
next
  case (Cons x xs)
  then show ?case
    by (auto simp: max_def)
qed

lemma positiveSizes_pos: "s \<in> set (positiveSizes levels) \<Longrightarrow> 0 < s"
  by (simp add: positiveSizes_def)

lemma maxSize_cases:
  "maxSize bs aks = NegInfinity \<or> (\<exists>d. maxSize bs aks = Num d \<and> 0 < d)"
proof -
  from mathMax_cases [of "positiveSizes bs @ positiveSizes aks"]
  show ?thesis
  proof
    assume "positiveSizes bs @ positiveSizes aks = [] \<and>
      mathMax (positiveSizes bs @ positiveSizes aks) = NegInfinity"
    then show ?thesis by (simp add: maxSize_def)
  next
    assume "\<exists>m. mathMax (positiveSizes bs @ positiveSizes aks) = Num m \<and>
      m \<in> set (positiveSizes bs @ positiveSizes aks)"
    then obtain m where m: "mathMax (positiveSizes bs @ positiveSizes aks) = Num m"
      and mem: "m \<in> set (positiveSizes bs) \<union> set (positiveSizes aks)"
      by auto
    from mem have "0 < m" by (auto dest: positiveSizes_pos)
    with m show ?thesis by (simp add: maxSize_def)
  qed
qed

lemma maxSize_no_positive:
  "positiveSizes bs @ positiveSizes aks = [] \<Longrightarrow> maxSize bs aks = NegInfinity"
  by (simp add: maxSize_def)

lemma levelWidth_NegInfinity: "levelWidth NegInfinity sz = 0"
  by (simp add: levelWidth_def)

lemma renderBook_empty_side:
  "bids ob = Some [] \<or> asks ob = Some [] \<Longrightarrow> renderBook ob = IncompleteView"
  by (auto simp: renderBook_def split: option.splits)

lemma viewWidths_renderBook:
  assumes "bids ob = Some bs" "asks ob = Some aks"
  shows "viewWidths (renderBook ob) =
     (if bs = [] \<or> aks = [] then []
      else map (\<lambda>l. levelWidth (maxSize bs aks) (orZero (level_size l))) (bs @ aks))"
  using assms by (simp add: renderBook_def viewWidths_def levelRow_def comp_def)

text \<open>
  Claim C6. A book with an empty side is shown as incomplete, so no width is computed
  for it. When no level has a size above zero, the largest size is \<^verbatim>\<open>-Infinity\<close>, the
  test \<^verbatim>\<open>maxSize > 0\<close> fails and every width shown is 0. In every case the largest size
  is either \<^verbatim>\<open>-Infinity\<close> or a number above zero, so the quotient is never taken with a
  zero divisor.
\<close>

theorem order_book_no_division_by_zero:
  "(bids ob = Some [] \<or> asks ob = Some [] \<longrightarrow> renderBook ob = IncompleteView) \<and>
   (bids ob = Some bs \<and> asks ob = Some aks \<and> positiveSizes bs @ positiveSizes aks = [] \<longrightarrow>
      maxSize bs aks = NegInfinity \<and>
      levelWidth (maxSize bs aks) sz = 0 \<and>
      list_all (\<lambda>w. w = 0) (viewWidths (renderBook ob))) \<and>
   (maxSize bs aks = NegInfinity \<or> (\<exists>d. maxSize bs aks = Num d \<and> 0 < d))"
proof (intro conjI impI)
  assume "bids ob = Some [] \<or> asks ob = Some []"
  then show "renderBook ob = IncompleteView"
    by (rule renderBook_empty_side)
next
  assume h: "bids ob = Some bs \<and> asks ob = Some aks \<and>
    positiveSizes bs @ positiveSizes aks = []"
  then have m: "maxSize bs aks = NegInfinity"
    by (simp add: maxSize_no_positive)
  then show "maxSize bs aks = NegInfinity" .
  from m show "levelWidth (maxSize bs aks) sz = 0"
    by (simp add: levelWidth_NegInfinity)
  from h have "viewWidths (renderBook ob) =
     (if bs = [] \<or> aks = [] then []
      else map (\<lambda>l. levelWidth (maxSize bs aks) (orZero (level_size l))) (bs @ aks))"
    by (simp add: viewWidths_renderBook)
  then show "list_all (\<lambda>w. w = 0) (viewWidths (renderBook ob))"
    by (auto simp: m levelWidth_NegInfinity list_all_iff)
next
  show "maxSize bs aks = NegInfinity \<or> (\<exists>d. maxSize bs aks = Num d \<and> 0 < d)"
    by (rule maxSize_cases)
qed

lemma sizelessBook_sides:
  "bids sizelessBook = Some [\<lparr> level_side = ''BID'', level_price = Some 99, level_size = Some 0 \<rparr>]"
  "asks sizelessBook = Some [\<lparr> level_side = ''ASK'', level_price = Some 101, level_size = None \<rparr>]"
  by (simp_all add: sizelessBook_def)

theorem order_book_no_division_by_zero_witness:
  "asks oneSidedBook = Some [] \<and> renderBook oneSidedBook = IncompleteView \<and>
   positiveSizes [\<lparr> level_side = ''BID'', level_price = Some 99, level_size = Some 0 \<rparr>] @
   positiveSizes [\<lparr> level_side = ''ASK'', level_price = Some 101, level_size = None \<rparr>] = [] \<and>
   viewWidths (renderBook sizelessBook) = [0, 0]"
proof -
  have e: "asks oneSidedBook = Some []"
    by (simp add: oneSidedBook_def)
  note T1 = order_book_no_division_by_zero [of oneSidedBook]
  have "bids oneSidedBook = Some [] \<or> asks oneSidedBook = Some [] \<longrightarrow>
      renderBook oneSidedBook = IncompleteView"
    by (rule conjunct1 [OF T1])
  with e have r: "renderBook oneSidedBook = IncompleteView" by simp
  have p: "positiveSizes [\<lparr> level_side = ''BID'', level_price = Some 99, level_size = Some 0 \<rparr>] @
     positiveSizes [\<lparr> level_side = ''ASK'', level_price = Some 101, level_size = None \<rparr>] = []"
    by (simp add: positiveSizes_def orZero_def)
  note T2 = order_book_no_division_by_zero [of sizelessBook
      "[\<lparr> level_side = ''BID'', level_price = Some 99, level_size = Some 0 \<rparr>]"
      "[\<lparr> level_side = ''ASK'', level_price = Some 101, level_size = None \<rparr>]"]
  from conjunct1 [OF conjunct2 [OF T2]] sizelessBook_sides p
  have z: "list_all (\<lambda>w. w = 0) (viewWidths (renderBook sizelessBook))"
    by simp
  have l: "length (viewWidths (renderBook sizelessBook)) = 2"
    by (simp add: viewWidths_renderBook [OF sizelessBook_sides])
  from z l have w: "viewWidths (renderBook sizelessBook) = [0, 0]"
    by (cases "viewWidths (renderBook sizelessBook)"; cases "tl (viewWidths (renderBook sizelessBook))")
       auto
  show ?thesis by (intro conjI e r p w)
qed

section \<open>A failed order-book fetch\<close>

lemma orString_nonempty: "d \<noteq> [] \<Longrightarrow> orString v d \<noteq> []"
  by (simp add: orString_def split: option.splits)

lemma fetchOrderBook_rejected:
  "fetchOrderBook symb (Rejected err) w =
     (Returned,
      w\<lparr> store := (store w)\<lparr> isLoading := False,
                            error := Some (orString (response_data_message err)
                                             ''Failed to fetch order book'') \<rparr>,
         requests := requests w @ [GetOrderBook symb] \<rparr>)"
  by (simp add: fetchOrderBook_def)

lemma componentFetchOrderBook_rejected:
  "componentFetchOrderBook (Rejected err) st =
     st\<lparr> c_isLoading := False, c_error := ''Failed to fetch order book'',
         c_console := c_console st @ [err] \<rparr>"
  by (simp add: componentFetchOrderBook_def settleFetch_def beginFetch_def)

text \<open>
  While its error slot is set the component returns the error view, before it looks at
  the snapshot it holds.
\<close>

lemma render_after_rejected:
  "render (componentFetchOrderBook (Rejected err) st) = ErrorView ''Failed to fetch order book''"
  by (simp add: componentFetchOrderBook_rejected render_def)

lemma render_next_fetch_begun:
  "render (beginFetch (componentFetchOrderBook (Rejected err) st)) =
     (case c_orderBook st of None \<Rightarrow> LoadingView | Some ob \<Rightarrow> renderBook ob)"
  by (simp add: componentFetchOrderBook_rejected beginFetch_def render_def split: option.splits)

text \<open>
  Claim C7, as the code has it. A failed fetch sets the error slot, to a text that is not
  empty, and leaves the cached snapshot as it was: in the store, where the action touches
  no slot but \<open>error\<close> and \<open>isLoading\<close>, and in the component, which besides logs the
  error. The snapshot is kept but not shown: while the error slot is set the component
  renders the error view alone, whether it holds a snapshot or not. The kept snapshot is
  rendered again once the next fetch has begun and cleared the error.
\<close>

theorem order_book_fetch_failure_frame:
  "fetchOrderBook symb (Rejected err) w =
     (Returned,
      w\<lparr> store := (store w)\<lparr> isLoading := False,
                            error := Some (orString (response_data_message err)
                                             ''Failed to fetch order book'') \<rparr>,
         requests := requests w @ [GetOrderBook symb] \<rparr>) \<and>
   orString (response_data_message err) ''Failed to fetch order book'' \<noteq> [] \<and>
   orderBook (store (snd (fetchOrderBook symb (Rejected err) w))) = orderBook (store w) \<and>
   componentFetchOrderBook (Rejected err) st =
     st\<lparr> c_isLoading := False, c_error := ''Failed to fetch order book'',
         c_console := c_console st @ [err] \<rparr> \<and>
   c_orderBook (componentFetchOrderBook (Rejected err) st) = c_orderBook st \<and>
   render (componentFetchOrderBook (Rejected err) st) = ErrorView ''Failed to fetch order book'' \<and>
   render (beginFetch (componentFetchOrderBook (Rejected err) st)) =
     (case c_orderBook st of None \<Rightarrow> LoadingView | Some ob \<Rightarrow> renderBook ob)"
proof (intro conjI)
  show "fetchOrderBook symb (Rejected err) w =
     (Returned,
      w\<lparr> store := (store w)\<lparr> isLoading := False,
                            error := Some (orString (response_data_message err)
                                             ''Failed to fetch order book'') \<rparr>,
         requests := requests w @ [GetOrderBook symb] \<rparr>)"
    by (rule fetchOrderBook_rejected)
  show "orString (response_data_message err) ''Failed to fetch order book'' \<noteq> []"
    by (rule orString_nonempty) simp
  show "orderBook (store (snd (fetchOrderBook symb (Rejected err) w))) = orderBook (store w)"
    by (simp add: fetchOrderBook_rejected)
  show "componentFetchOrderBook (Rejected err) st =
     st\<lparr> c_isLoading := False, c_error := ''Failed to fetch order book'',
         c_console := c_console st @ [err] \<rparr>"
    by (rule componentFetchOrderBook_rejected)
  show "c_orderBook (componentFetchOrderBook (Rejected err) st) = c_orderBook st"
    by (simp add: componentFetchOrderBook_rejected)
  show "render (componentFetchOrderBook (Rejected err) st) =
      ErrorView ''Failed to fetch order book''"
    by (rule render_after_rejected)
  show "render (beginFetch (componentFetchOrderBook (Rejected err) st)) =
     (case c_orderBook st of None \<Rightarrow> LoadingView | Some ob \<Rightarrow> renderBook ob)"
    by (rule render_next_fetch_begun)
qed

text \<open>
  The specification has the snapshot stay available for rendering, and the error be all
  there is to observe only when there is no earlier snapshot. After a good fetch and a
  failed one the component still holds the snapshot, yet what it renders is the error
  view, the same as without a snapshot.
\<close>

theorem failed_fetch_hides_snapshot_counterexample:
  "c_orderBook (componentFetchOrderBook (Resolved sampleBook) initialOrderBookState) =
     Some sampleBook \<and>
   c_orderBook (componentFetchOrderBook (Rejected networkError)
     (componentFetchOrderBook (Resolved sampleBook) initialOrderBookState)) = Some sampleBook \<and>
   render (componentFetchOrderBook (Rejected networkError)
     (componentFetchOrderBook (Resolved sampleBook) initialOrderBookState)) =
     ErrorView ''Failed to fetch order book'' \<and>
   render (componentFetchOrderBook (Rejected networkError) initialOrderBookState) =
     ErrorView ''Failed to fetch order book''"
  by (simp add: componentFetchOrderBook_def settleFetch_def beginFetch_def render_def
      initialOrderBookState_def)

end
